theory Spec2Isabelle
  imports Main "HOL-Library.Word" "HOL-Library.Sublist"
begin

section \<open>Data model (main.go, lines 14-36)\<close>

text \<open>
  Go's \<^verbatim>\<open>uint\<close> on the 64-bit platforms that run the hypervisor is a 64-bit word.
  Slices are lists; the three structs are records with the source's field names.
\<close>

type_synonym uint = "64 word"

record Port =
  Guest :: uint
  Host :: uint

record Drive =
  Path :: string
  Type :: string

record VMConfig =
  Name :: string
  Memory :: string
  Drives :: "Drive list"
  Ports :: "Port list"
  Cores :: uint
  Fullscreen :: bool

definition ConfigDir :: string where
  "ConfigDir = ''.config/qmgr/configs''"

definition DiskDir :: string where
  "DiskDir = ''.config/qmgr/disks''"

definition QemuExec :: string where
  "QemuExec = ''qemu-system-x86_64''"

definition QemuImg :: string where
  "QemuImg = ''qemu-img''"

section \<open>Formatting helpers of the Go standard library\<close>

text \<open>The verb \<^verbatim>\<open>%d\<close> of \<^verbatim>\<open>fmt.Sprintf\<close> on a non-negative integer: its decimal digits.\<close>

definition digit :: "nat \<Rightarrow> char" where
  "digit n = ''0123456789'' ! n"

function fmt_d :: "nat \<Rightarrow> string" where
  "fmt_d n = (if n < 10 then [digit n] else fmt_d (n div 10) @ [digit (n mod 10)])"
  by pat_completeness auto
termination
  by (relation "measure id") auto

declare fmt_d.simps [simp del]

definition fmt_uint :: "uint \<Rightarrow> string" where
  "fmt_uint w = fmt_d (unat w)"

text \<open>
  \<^verbatim>\<open>strings.Join(elems, sep)\<close>: the empty string for no element, otherwise the first
  element followed by the separator and the next element, for each further element.
\<close>

fun strings_Join :: "string list \<Rightarrow> string \<Rightarrow> string" where
  "strings_Join [] sep = []"
| "strings_Join (x # xs) sep = x @ concat (map (\<lambda>s. sep @ s) xs)"

section \<open>The argument builder: launchVM, lines 200-236\<close>

text \<open>Lines 201-207: the fixed arguments, appended pair by pair to the empty slice.\<close>

definition preambleArgs :: "VMConfig \<Rightarrow> string list" where
  "preambleArgs config =
    (let args = [];
         args = args @ [''-m'', Memory config];
         args = args @ [''-machine'', ''q35''];
         args = args @ [''-device'', ''qemu-xhci,id=xhci''];
         args = args @ [''-device'', ''usb-kbd''];
         args = args @ [''-device'', ''usb-tablet''];
         args = args @ [''-device'', ''virtio-net,netdev=net0'']
     in args)"

text \<open>
  Lines 209-221, one iteration of the loop over the drives: the strings it appends.
  An empty path leaves the iteration at once (\<^verbatim>\<open>continue\<close>); the \<^verbatim>\<open>switch\<close> has
  three cases and no default.
\<close>

definition driveArgs :: "nat \<Rightarrow> Drive \<Rightarrow> string list" where
  "driveArgs idx drive =
    (if Path drive = '''' then []
     else if Type drive = ''img'' then
       [''-drive'', ''if=none,id=usb'' @ fmt_d idx @ '',format=raw,file='' @ Path drive]
         @ [''-device'', ''usb-storage,bus=xhci.0,drive=usb'' @ fmt_d idx]
     else if Type drive = ''qcow2'' then
       [''-drive'', ''if=virtio,format=qcow2,file='' @ Path drive]
     else if Type drive = ''iso'' then
       [''-cdrom'', Path drive]
     else [])"

text \<open>Lines 208-222: \<^verbatim>\<open>for idx, drive := range config.Drives\<close>, the index counted from 0.\<close>

fun driveLoop :: "nat \<Rightarrow> Drive list \<Rightarrow> string list \<Rightarrow> string list" where
  "driveLoop idx [] args = args"
| "driveLoop idx (drive # rest) args = driveLoop (Suc idx) rest (args @ driveArgs idx drive)"

text \<open>
  Lines 223-225: \<^verbatim>\<open>config\<close> is a pointer, so the assignment to \<^verbatim>\<open>config.Cores\<close>
  changes the caller's record; the model returns the record it leaves behind.
  \<^verbatim>\<open>runtime.NumCPU()\<close> is a Go \<^verbatim>\<open>int\<close>, converted by \<^verbatim>\<open>uint(...)\<close>.
\<close>

definition resolveCores :: "int \<Rightarrow> VMConfig \<Rightarrow> VMConfig" where
  "resolveCores numCPU config =
    (if Cores config = 0 then config\<lparr>Cores := word_of_int numCPU\<rparr> else config)"

text \<open>Line 226.\<close>

definition cpuArgs :: "VMConfig \<Rightarrow> string list" where
  "cpuArgs config = [''-enable-kvm'', ''-cpu'', ''host'', ''-smp'', fmt_uint (Cores config)]"

text \<open>Lines 227-229.\<close>

definition displayArgs :: "VMConfig \<Rightarrow> string list" where
  "displayArgs config =
    (if Fullscreen config then [''-display'', ''gtk,full-screen=on''] else [])"

text \<open>Lines 231-234: the loop that collects one forward per port.\<close>

fun fwdLoop :: "Port list \<Rightarrow> string list \<Rightarrow> string list" where
  "fwdLoop [] fwds = fwds"
| "fwdLoop (fwd # rest) fwds =
     fwdLoop rest (fwds @ [''tcp::'' @ fmt_uint (Host fwd) @ ''-:'' @ fmt_uint (Guest fwd)])"

text \<open>Lines 230-236.\<close>

definition netdevArgs :: "VMConfig \<Rightarrow> string list" where
  "netdevArgs config =
    (if length (Ports config) > 0 then
       (let fwds = fwdLoop (Ports config) []
        in [''-netdev'', ''user,id=net0,hostfwd='' @ strings_Join fwds '',''])
     else [])"

text \<open>
  Lines 200-236 in their order. The result is the argument slice and the record as the
  function leaves it; \<open>numCPU\<close> is what \<^verbatim>\<open>runtime.NumCPU()\<close> returns on the host.
\<close>

definition buildArgs :: "int \<Rightarrow> VMConfig \<Rightarrow> string list \<times> VMConfig" where
  "buildArgs numCPU config =
    (let args = preambleArgs config;
         args = driveLoop 0 (Drives config) args;
         config = resolveCores numCPU config;
         args = args @ cpuArgs config;
         args = args @ displayArgs config;
         args = args @ netdevArgs config
     in (args, config))"

section \<open>Errors, the host and the file system\<close>

text \<open>
  A Go \<^verbatim>\<open>error\<close> value: an error of the operating system or of a library, with its
  message, or the result of \<^verbatim>\<open>fmt.Errorf("<prefix>: %w", err)\<close>. \<open>ErrNotExist\<close> stands
  for the errors that \<^verbatim>\<open>os.IsNotExist\<close> recognises.
\<close>

datatype error =
    ErrNotExist string
  | ErrOther string
  | Errorf string error

fun Error :: "error \<Rightarrow> string" where
  "Error (ErrNotExist m) = m"
| "Error (ErrOther m) = m"
| "Error (Errorf p e) = p @ '': '' @ Error e"

text \<open>\<^verbatim>\<open>os.IsNotExist\<close> looks at errors of package os only; it does not unwrap \<^verbatim>\<open>%w\<close>.\<close>

fun os_IsNotExist :: "error \<Rightarrow> bool" where
  "os_IsNotExist (ErrNotExist m) = True"
| "os_IsNotExist (ErrOther m) = False"
| "os_IsNotExist (Errorf p e) = False"

text \<open>
  The file system as the program sees it. \<open>files\<close> maps the path of a regular file to
  its content. \<open>dirs\<close> maps the path of a directory that exists to what \<^verbatim>\<open>os.ReadDir\<close>
  yields for it: the names of the entries read, and the error that ended the reading,
  if any. \<open>fault\<close> says which calls fail for a reason the two maps do not show
  (permissions, a full disk, ...), and with which error.
\<close>

datatype fsop = OpMkdirAll | OpCreate | OpWrite | OpOpen | OpRead

record fsys =
  files :: "string \<rightharpoonup> string"
  dirs :: "string \<rightharpoonup> (string list \<times> error option)"
  fault :: "fsop \<Rightarrow> string \<rightharpoonup> error"

definition os_ReadDir :: "fsys \<Rightarrow> string \<Rightarrow> string list \<times> error option" where
  "os_ReadDir fs name =
    (case dirs fs name of
       None \<Rightarrow> ([], Some (ErrNotExist (''open '' @ name @ '': no such file or directory'')))
     | Some r \<Rightarrow> r)"

text \<open>\<^verbatim>\<open>os.MkdirAll\<close>: nothing to do for a directory that exists. Parents are not tracked.\<close>

definition os_MkdirAll :: "fsys \<Rightarrow> string \<Rightarrow> error + fsys" where
  "os_MkdirAll fs path =
    (case fault fs OpMkdirAll path of
       Some err \<Rightarrow> Inl err
     | None \<Rightarrow>
         (case dirs fs path of
            Some r \<Rightarrow> Inr fs
          | None \<Rightarrow> Inr (fs\<lparr>dirs := (dirs fs)(path \<mapsto> ([], None))\<rparr>)))"

text \<open>\<^verbatim>\<open>os.Create\<close>: the file exists afterwards and is empty.\<close>

definition os_Create :: "fsys \<Rightarrow> string \<Rightarrow> error + fsys" where
  "os_Create fs name =
    (case fault fs OpCreate name of
       Some err \<Rightarrow> Inl err
     | None \<Rightarrow> Inr (fs\<lparr>files := (files fs)(name \<mapsto> [])\<rparr>))"

text \<open>Writing to the file just created: the bytes are appended to its content.\<close>

definition file_Write :: "fsys \<Rightarrow> string \<Rightarrow> string \<Rightarrow> error + fsys" where
  "file_Write fs name bytes =
    (case fault fs OpWrite name of
       Some err \<Rightarrow> Inl err
     | None \<Rightarrow>
         Inr (fs\<lparr>files := (files fs)
               (name \<mapsto> (case files fs name of None \<Rightarrow> [] | Some old \<Rightarrow> old) @ bytes)\<rparr>))"

text \<open>\<^verbatim>\<open>os.Open\<close>, and reading the whole of the open file.\<close>

definition os_Open :: "fsys \<Rightarrow> string \<Rightarrow> error + string" where
  "os_Open fs name =
    (case fault fs OpOpen name of
       Some err \<Rightarrow> Inl err
     | None \<Rightarrow>
         (case files fs name of
            None \<Rightarrow> Inl (ErrNotExist (''open '' @ name @ '': no such file or directory''))
          | Some content \<Rightarrow> Inr content))"

definition file_Read :: "fsys \<Rightarrow> string \<Rightarrow> string \<Rightarrow> error + string" where
  "file_Read fs name content =
    (case fault fs OpRead name of Some err \<Rightarrow> Inl err | None \<Rightarrow> Inr content)"

text \<open>
  What the program reads from its host, and the libraries it calls without the
  repository holding their code:
  \<^item> \<open>user_Current\<close>: the result of \<^verbatim>\<open>user.Current()\<close>, an error or the home directory;
  \<^item> \<open>NumCPU\<close>: \<^verbatim>\<open>runtime.NumCPU()\<close>;
  \<^item> \<open>Getenv\<close>: \<^verbatim>\<open>os.Getenv\<close>;
  \<^item> \<open>run_cmd\<close>: \<^verbatim>\<open>exec.Command(name, args...).Run()\<close> with the inherited streams: the
    error it returns, if any, and the file system the child process leaves;
  \<^item> \<open>json_Encode\<close>: the bytes \<^verbatim>\<open>json.Encoder.Encode\<close> produces with the indentation set
    on line 191, or its error;
  \<^item> \<open>json_Decode\<close>: what \<^verbatim>\<open>json.Decoder.Decode\<close> leaves in a pointer to a fresh record,
    or its error; \<open>None\<close> is the nil pointer that the JSON value \<^verbatim>\<open>null\<close> leaves.
\<close>

record env =
  user_Current :: "error + string"
  NumCPU :: int
  Getenv :: "string \<Rightarrow> string"
  run_cmd :: "string \<Rightarrow> string list \<Rightarrow> fsys \<Rightarrow> error option \<times> fsys"
  json_Encode :: "VMConfig \<Rightarrow> error + string"
  json_Decode :: "string \<Rightarrow> error + VMConfig option"

text \<open>
  What the program does to the outside: lines written to the two streams and the
  commands it runs, in their order, and the file system.
\<close>

datatype event = Stdout string | Stderr string | Exec string "string list"

record world =
  filesys :: fsys
  events :: "event list"

definition emit :: "event \<Rightarrow> world \<Rightarrow> world" where
  "emit ev w = w\<lparr>events := events w @ [ev]\<rparr>"

text \<open>\<^verbatim>\<open>fmt.Println\<close> and \<^verbatim>\<open>fmt.Fprintln(os.Stderr, ...)\<close> of one string.\<close>

definition Println :: "string \<Rightarrow> world \<Rightarrow> world" where
  "Println s w = emit (Stdout (s @ [CHR 0x0A])) w"

definition Fprintln_Stderr :: "string \<Rightarrow> world \<Rightarrow> world" where
  "Fprintln_Stderr s w = emit (Stderr (s @ [CHR 0x0A])) w"

text \<open>Running a command: the call is recorded, the child changes the file system.\<close>

definition Run :: "env \<Rightarrow> string \<Rightarrow> string list \<Rightarrow> world \<Rightarrow> error option \<times> world" where
  "Run e name args w =
    (let w = emit (Exec name args) w;
         (err, fs) = run_cmd e name args (filesys w)
     in (err, w\<lparr>filesys := fs\<rparr>))"

section \<open>Paths: path/filepath on Unix\<close>

text \<open>The elements of a path between its separators; an empty path has one empty element.\<close>

fun components :: "string \<Rightarrow> string list" where
  "components [] = [[]]"
| "components (c # cs) =
     (if c = CHR ''/'' then [] # components cs
      else (case components cs of [] \<Rightarrow> [[c]] | x # xs \<Rightarrow> (c # x) # xs))"

text \<open>
  \<^verbatim>\<open>filepath.Clean\<close> by its documented rules, on the elements of the path, kept with the
  last one first: empty elements and \<^verbatim>\<open>.\<close> are dropped; \<^verbatim>\<open>..\<close> removes the element
  before it, is dropped at the root, and is kept where a relative path has nothing left
  to remove. The empty result of a relative path is \<^verbatim>\<open>.\<close>.
\<close>

definition cleanStep :: "bool \<Rightarrow> string list \<Rightarrow> string \<Rightarrow> string list" where
  "cleanStep rooted out elem =
    (if elem = [] \<or> elem = ''.'' then out
     else if elem = ''..'' then
       (case out of
          [] \<Rightarrow> if rooted then [] else [''..'']
        | t # below \<Rightarrow> if t = ''..'' then ''..'' # out else below)
     else elem # out)"

definition isRooted :: "string \<Rightarrow> bool" where
  "isRooted path = (case path of [] \<Rightarrow> False | c # cs \<Rightarrow> c = CHR ''/'')"

definition filepath_Clean :: "string \<Rightarrow> string" where
  "filepath_Clean path =
    (let rooted = isRooted path;
         out = foldl (cleanStep rooted) [] (components path);
         body = strings_Join (rev out) ''/''
     in if rooted then CHR ''/'' # body else if body = [] then ''.'' else body)"

text \<open>
  \<^verbatim>\<open>filepath.Join\<close>: leading empty elements are ignored, the rest is joined with the
  separator and cleaned; no element left gives the empty string.
\<close>

fun filepath_Join :: "string list \<Rightarrow> string" where
  "filepath_Join [] = []"
| "filepath_Join (e # es) =
     (if e = [] then filepath_Join es else filepath_Clean (strings_Join (e # es) ''/''))"

text \<open>\<^verbatim>\<open>strings.TrimSuffix\<close>.\<close>

definition strings_TrimSuffix :: "string \<Rightarrow> string \<Rightarrow> string" where
  "strings_TrimSuffix s suf = (if suffix suf s then take (length s - length suf) s else s)"

section \<open>The configuration store: lines 132-197\<close>

text \<open>Lines 141-144: the loop that strips the extension from each entry's name.\<close>

fun namesLoop :: "string list \<Rightarrow> string list \<Rightarrow> string list" where
  "namesLoop [] configs = configs"
| "namesLoop (file # rest) configs =
     namesLoop rest (configs @ [strings_TrimSuffix file ''.json''])"

definition listConfigs :: "env \<Rightarrow> fsys \<Rightarrow> error + string list" where
  "listConfigs e fs =
    (case user_Current e of
       Inl err \<Rightarrow> Inl (Errorf ''getting current user'' err)
     | Inr homeDir \<Rightarrow>
         (case os_ReadDir fs (filepath_Join [homeDir, ConfigDir]) of
            (configFiles, err) \<Rightarrow>
              (case err of
                 Some er \<Rightarrow>
                   if \<not> os_IsNotExist er
                   then Inl (Errorf ''reading config file directory'' er)
                   else Inr (namesLoop configFiles [])
               | None \<Rightarrow> Inr (namesLoop configFiles []))))"

text \<open>
  Lines 149-170. The record decoded into is a fresh one behind a pointer, and the
  decoder is given the address of that pointer.
\<close>

definition readConfig :: "env \<Rightarrow> string \<Rightarrow> fsys \<Rightarrow> error + VMConfig option" where
  "readConfig e name fs =
    (case user_Current e of
       Inl err \<Rightarrow> Inl (Errorf ''getting current user'' err)
     | Inr homeDir \<Rightarrow>
         (let filePath = filepath_Join [homeDir, ConfigDir, name @ ''.json'']
          in case os_Open fs filePath of
               Inl err \<Rightarrow> Inl (Errorf ''opening config'' err)
             | Inr content \<Rightarrow>
                 (case file_Read fs filePath content of
                    Inl err \<Rightarrow> Inl (Errorf ''decoding config'' err)
                  | Inr bytes \<Rightarrow>
                      (case json_Decode e bytes of
                         Inl err \<Rightarrow> Inl (Errorf ''decoding config'' err)
                       | Inr config \<Rightarrow> Inr config))))"

text \<open>Lines 172-197. The file system changes also where the function returns an error.\<close>

definition writeConfig ::
  "env \<Rightarrow> string \<Rightarrow> VMConfig \<Rightarrow> fsys \<Rightarrow> (error + string) \<times> fsys" where
  "writeConfig e name config fs =
    (case user_Current e of
       Inl err \<Rightarrow> (Inl (Errorf ''getting current user'' err), fs)
     | Inr homeDir \<Rightarrow>
         (let configDir = filepath_Join [homeDir, ConfigDir]
          in case os_MkdirAll fs configDir of
               Inl err \<Rightarrow> (Inl (Errorf ''creating config directory'' err), fs)
             | Inr fs \<Rightarrow>
                 (let filePath = filepath_Join [configDir, name @ ''.json'']
                  in case os_Create fs filePath of
                       Inl err \<Rightarrow> (Inl (Errorf ''creating config'' err), fs)
                     | Inr fs \<Rightarrow>
                         (case json_Encode e config of
                            Inl err \<Rightarrow> (Inl (Errorf ''encofing config'' err), fs)
                          | Inr bytes \<Rightarrow>
                              (case file_Write fs filePath bytes of
                                 Inl err \<Rightarrow> (Inl (Errorf ''encofing config'' err), fs)
                               | Inr fs \<Rightarrow> (Inr filePath, fs))))))"

section \<open>Running programs: lines 199-283\<close>

text \<open>The verb \<^verbatim>\<open>%v\<close> on a slice of strings: the elements between brackets.\<close>

definition fmt_v :: "string list \<Rightarrow> string" where
  "fmt_v xs = ''['' @ strings_Join xs '' '' @ '']''"

text \<open>
  Lines 199-248. Reading \<^verbatim>\<open>config.Memory\<close> through a nil pointer is a run-time panic;
  otherwise the result is the error returned and the record behind the pointer.
\<close>

datatype 'a outcome = Returns 'a | Panics error

definition nilDeref :: error where
  "nilDeref = ErrOther ''runtime error: invalid memory address or nil pointer dereference''"

definition launchVM ::
  "env \<Rightarrow> VMConfig option \<Rightarrow> world \<Rightarrow> (error option \<times> VMConfig) outcome \<times> world" where
  "launchVM e config w =
    (case config of
       None \<Rightarrow> (Panics nilDeref, w)
     | Some config \<Rightarrow>
         (case buildArgs (NumCPU e) config of
            (args, config) \<Rightarrow>
              (let w = emit (Stdout (''cmd.Args: '' @ fmt_v (QemuExec # args) @ [CHR 0x0A])) w
               in case Run e QemuExec args w of
                    (Some er, w) \<Rightarrow> (Returns (Some (Errorf ''executing qemu'' er), config), w)
                  | (None, w) \<Rightarrow> (Returns (None, config), w))))"

text \<open>Lines 250-262: the path is the empty string where an error is returned.\<close>

definition newDisk ::
  "env \<Rightarrow> string \<Rightarrow> string \<Rightarrow> world \<Rightarrow> (string \<times> error option) \<times> world" where
  "newDisk e name size' w =
    (case user_Current e of
       Inl err \<Rightarrow> (('''', Some (Errorf ''getting current user'' err)), w)
     | Inr homeDir \<Rightarrow>
         (let filePath = filepath_Join [homeDir, DiskDir, name @ ''.qcow2'']
          in case Run e QemuImg [''create'', ''-f'', ''qcow2'', filePath, size'] w of
               (Some er, w) \<Rightarrow> (('''', Some (Errorf ''creating disk image'' er)), w)
             | (None, w) \<Rightarrow> ((filePath, None), w)))"

text \<open>Lines 268-283.\<close>

definition editorName :: "env \<Rightarrow> string" where
  "editorName e =
    (let editor = Getenv e ''VISUAL'';
         editor = (if editor = [] then Getenv e ''EDITOR'' else editor)
     in editor)"

definition editor :: "env \<Rightarrow> string \<Rightarrow> world \<Rightarrow> error option \<times> world" where
  "editor e file w =
    (case Run e (editorName e) [file] w of
       (Some er, w) \<Rightarrow> (Some (Errorf ''opening editor'' er), w)
     | (None, w) \<Rightarrow> (None, w))"

section \<open>The command line: main, lines 38-130\<close>

text \<open>How the process ends: \<^verbatim>\<open>os.Exit(n)\<close> or the return from main (status 0), or a panic.\<close>

datatype status = Exit nat | Panic error

definition usage :: string where
  "usage = ''no command given'' @ [CHR 0x0A] @ ''  run <name>'' @ [CHR 0x0A] @ ''  list''
     @ [CHR 0x0A] @ ''  create <name>'' @ [CHR 0x0A] @ ''  edit <name>''"

text \<open>Lines 50-52.\<close>

fun printLoop :: "string list \<Rightarrow> world \<Rightarrow> world" where
  "printLoop [] w = w"
| "printLoop (config # rest) w = printLoop rest (Println config w)"

text \<open>Lines 84-105: the record that \<^verbatim>\<open>create\<close> writes; fields not named are zero.\<close>

definition templateConfig :: "string \<Rightarrow> string \<Rightarrow> VMConfig" where
  "templateConfig name diskPath =
    \<lparr>Name = name, Memory = ''2G'',
     Drives = [\<lparr>Path = [], Type = ''img''\<rparr>,
               \<lparr>Path = diskPath, Type = ''qcow2''\<rparr>,
               \<lparr>Path = [], Type = ''iso''\<rparr>],
     Ports = [\<lparr>Guest = 22, Host = 2222\<rparr>],
     Cores = 0, Fullscreen = False\<rparr>"

text \<open>Lines 54-66.\<close>

definition cmdRun :: "env \<Rightarrow> string list \<Rightarrow> world \<Rightarrow> status \<times> world" where
  "cmdRun e Args w =
    (if length Args < 3 then (Exit 1, Fprintln_Stderr ''no run name'' w)
     else
       (case readConfig e (Args ! 2) (filesys w) of
          Inl err \<Rightarrow> (Exit 1, Fprintln_Stderr (Error err) w)
        | Inr config \<Rightarrow>
            (case launchVM e config w of
               (Panics err, w) \<Rightarrow> (Panic err, w)
             | (Returns (Some err, config), w) \<Rightarrow> (Panic err, w)
             | (Returns (None, config), w) \<Rightarrow> (Exit 0, w))))"

text \<open>Lines 68-118.\<close>

definition cmdCreate :: "env \<Rightarrow> string list \<Rightarrow> world \<Rightarrow> status \<times> world" where
  "cmdCreate e Args w =
    (if length Args < 3 then (Exit 1, Fprintln_Stderr ''no create name'' w)
     else
       (let size' = ''64G'';
            size' = (if length Args > 3 then Args ! 3 else size')
        in case newDisk e (Args ! 2) size' w of
             ((diskPath, err), w) \<Rightarrow>
               (let w = (case err of Some er \<Rightarrow> Fprintln_Stderr (Error er) w | None \<Rightarrow> w);
                    config = templateConfig (Args ! 2) diskPath
                in case writeConfig e (Args ! 2) config (filesys w) of
                     (Inl er, fs) \<Rightarrow> (Exit 1, Fprintln_Stderr (Error er) (w\<lparr>filesys := fs\<rparr>))
                   | (Inr configPath, fs) \<Rightarrow>
                       (let w = Println configPath (w\<lparr>filesys := fs\<rparr>)
                        in case editor e configPath w of
                             (Some er, w) \<Rightarrow>
                               (Exit 1, Fprintln_Stderr (''editing config: '' @ Error er) w)
                           | (None, w) \<Rightarrow> (Exit 0, w)))))"

text \<open>Lines 119-128: an editor that fails is reported, and the program ends normally.\<close>

definition cmdEdit :: "env \<Rightarrow> string list \<Rightarrow> world \<Rightarrow> status \<times> world" where
  "cmdEdit e Args w =
    (if length Args < 3 then (Exit 1, Fprintln_Stderr ''no edit name'' w)
     else
       (let configPath = filepath_Join [''~'', ConfigDir, (Args ! 2) @ ''.json'']
        in case editor e configPath w of
             (Some er, w) \<Rightarrow> (Exit 0, Fprintln_Stderr (''editing config: '' @ Error er) w)
           | (None, w) \<Rightarrow> (Exit 0, w)))"

text \<open>
  Lines 38-130. \<open>Args\<close> is \<^verbatim>\<open>os.Args\<close>, the program's name first. The \<^verbatim>\<open>switch\<close> has four
  cases and no default.
\<close>

definition main :: "env \<Rightarrow> string list \<Rightarrow> world \<Rightarrow> status \<times> world" where
  "main e Args w =
    (if length Args < 2 then (Exit 0, Fprintln_Stderr usage w)
     else if Args ! 1 = ''list'' then
       (case listConfigs e (filesys w) of
          Inl err \<Rightarrow> (Panic err, w)
        | Inr configs \<Rightarrow> (Exit 0, printLoop configs w))
     else if Args ! 1 = ''run'' then cmdRun e Args w
     else if Args ! 1 = ''create'' then cmdCreate e Args w
     else if Args ! 1 = ''edit'' then cmdEdit e Args w
     else (Exit 0, w))"

section \<open>Observations on an argument list\<close>

text \<open>
  The number of places where the option \<^verbatim>\<open>-netdev\<close> is followed by a value that
  defines the user-mode device \<^verbatim>\<open>net0\<close>, the form line 235 writes.
\<close>

fun netdevDefs :: "string list \<Rightarrow> nat" where
  "netdevDefs (a # b # rest) =
     (if a = ''-netdev'' \<and> prefix ''user,id=net0'' b then 1 else 0) + netdevDefs (b # rest)"
| "netdevDefs [a] = 0"
| "netdevDefs [] = 0"

text \<open>The forward of one port, as the specification writes it.\<close>

definition portForward :: "Port \<Rightarrow> string" where
  "portForward p = ''tcp::'' @ fmt_uint (Host p) @ ''-:'' @ fmt_uint (Guest p)"

text \<open>
  A record that the JSON library of the host writes and reads back unchanged: what the
  specification calls a valid record.
\<close>

definition json_round_trips :: "env \<Rightarrow> VMConfig \<Rightarrow> bool" where
  "json_round_trips e config =
    (case json_Encode e config of
       Inl err \<Rightarrow> False
     | Inr bytes \<Rightarrow> json_Decode e bytes = Inr (Some config))"

text \<open>
  An element that \<^verbatim>\<open>filepath.Clean\<close> keeps as a name, and the shape of what it keeps:
  names, above \<^verbatim>\<open>..\<close> elements only, and those only in a relative path.
\<close>

definition ordinary :: "string \<Rightarrow> bool" where
  "ordinary x = (x \<noteq> [] \<and> x \<noteq> ''.'' \<and> x \<noteq> ''..'' \<and> CHR ''/'' \<notin> set x)"

fun cleaned :: "bool \<Rightarrow> string list \<Rightarrow> bool" where
  "cleaned rooted [] = True"
| "cleaned rooted (x # xs) =
     (if x = ''..'' then \<not> rooted \<and> (\<forall>y \<in> set xs. y = ''..'')
      else ordinary x \<and> cleaned rooted xs)"

section \<open>A concrete host, for evaluating the model\<close>

text \<open>
  A host with eight processors whose user has the home directory \<^verbatim>\<open>/home/u\<close> and the
  editor \<^verbatim>\<open>vi\<close>, where every command succeeds and changes no file, and whose JSON
  library is a table with one entry. \<open>brokenDiskHost\<close> is the same host with a disk
  image tool that fails.
\<close>

definition demoConfig :: VMConfig where
  "demoConfig =
    \<lparr>Name = ''vm1'', Memory = ''4G'',
     Drives = [\<lparr>Path = ''/img/a.qcow2'', Type = ''qcow2''\<rparr>],
     Ports = [\<lparr>Guest = 22, Host = 2222\<rparr>],
     Cores = 0, Fullscreen = False\<rparr>"

definition demoHost :: env where
  "demoHost =
    \<lparr>user_Current = Inr ''/home/u'',
     NumCPU = 8,
     Getenv = (\<lambda>key. if key = ''EDITOR'' then ''vi'' else []),
     run_cmd = (\<lambda>name args fs. (None, fs)),
     json_Encode = (\<lambda>config. Inr (''config '' @ Name config)),
     json_Decode = (\<lambda>bytes. if bytes = ''config vm1'' then Inr (Some demoConfig)
                            else Inl (ErrOther ''invalid character''))\<rparr>"

definition brokenDiskHost :: env where
  "brokenDiskHost =
    demoHost\<lparr>run_cmd := (\<lambda>name args fs.
      if name = ''qemu-img'' then (Some (ErrOther ''exit status 1''), fs) else (None, fs))\<rparr>"

definition emptyFs :: fsys where
  "emptyFs = \<lparr>files = Map.empty, dirs = Map.empty, fault = (\<lambda>op. Map.empty)\<rparr>"

definition emptyWorld :: world where
  "emptyWorld = \<lparr>filesys = emptyFs, events = []\<rparr>"

section \<open>Facts about the argument builder\<close>

lemma driveLoop_concat:
  "driveLoop idx ds args = args @ concat (map (\<lambda>(i, d). driveArgs i d) (enumerate idx ds))"
  by (induction ds arbitrary: idx args) simp_all

lemma fwdLoop_map: "fwdLoop ps fwds = fwds @ map portForward ps"
  by (induction ps arbitrary: fwds) (simp_all add: portForward_def)

lemma displayArgs_resolveCores: "displayArgs (resolveCores n c) = displayArgs c"
  by (simp add: displayArgs_def resolveCores_def)

lemma netdevArgs_resolveCores: "netdevArgs (resolveCores n c) = netdevArgs c"
  by (simp add: netdevArgs_def resolveCores_def)

lemma buildArgs_fst:
  "fst (buildArgs n c) =
     driveLoop 0 (Drives c) (preambleArgs c) @ cpuArgs (resolveCores n c)
       @ displayArgs c @ netdevArgs c"
  by (simp add: buildArgs_def Let_def displayArgs_resolveCores netdevArgs_resolveCores)

lemma buildArgs_snd: "snd (buildArgs n c) = resolveCores n c"
  by (simp add: buildArgs_def Let_def)

lemma netdevDefs_append:
  "ys = [] \<or> \<not> prefix ''user,id=net0'' (hd ys) \<Longrightarrow>
     netdevDefs (xs @ ys) = netdevDefs xs + netdevDefs ys"
proof (induction xs rule: netdevDefs.induct)
  case (1 a b rest)
  then show ?case by simp
next
  case (2 a)
  then show ?case by (cases ys) auto
next
  case 3
  then show ?case by simp
qed

lemma netdevDefs_driveArgs: "netdevDefs (driveArgs i d) = 0"
  by (simp add: driveArgs_def)

lemma hd_driveArgs:
  "driveArgs i d = [] \<or> \<not> prefix ''user,id=net0'' (hd (driveArgs i d))"
  by (simp add: driveArgs_def)

lemma hd_drives:
  "concat (map (\<lambda>(i, d). driveArgs i d) (enumerate idx ds)) = [] \<or>
   \<not> prefix ''user,id=net0'' (hd (concat (map (\<lambda>(i, d). driveArgs i d) (enumerate idx ds))))"
proof (induction ds arbitrary: idx)
  case Nil
  then show ?case by simp
next
  case (Cons d ds)
  show ?case
  proof (cases "driveArgs idx d = []")
    case True
    then show ?thesis using Cons.IH [of "Suc idx"] by simp
  next
    case False
    then show ?thesis using hd_driveArgs [of idx d] by simp
  qed
qed

lemma netdevDefs_drives:
  "netdevDefs (concat (map (\<lambda>(i, d). driveArgs i d) (enumerate idx ds))) = 0"
proof (induction ds arbitrary: idx)
  case Nil
  then show ?case by simp
next
  case (Cons d ds)
  let ?rest = "concat (map (\<lambda>(i, d). driveArgs i d) (enumerate (Suc idx) ds))"
  have "netdevDefs (driveArgs idx d @ ?rest) = netdevDefs (driveArgs idx d) + netdevDefs ?rest"
    by (rule netdevDefs_append) (rule hd_drives)
  then show ?case
    using Cons.IH [of "Suc idx"] by (simp add: netdevDefs_driveArgs)
qed

lemma netdevDefs_before_ports:
  "netdevDefs (driveLoop 0 (Drives c) (preambleArgs c) @ cpuArgs c' @ displayArgs c'') = 0"
proof -
  let ?ds = "concat (map (\<lambda>(i, d). driveArgs i d) (enumerate 0 (Drives c)))"
  let ?tl = "cpuArgs c' @ displayArgs c''"
  have tl: "netdevDefs ?tl = 0"
    by (simp add: cpuArgs_def displayArgs_def)
  have "netdevDefs (?ds @ ?tl) = netdevDefs ?ds + netdevDefs ?tl"
    by (rule netdevDefs_append) (simp add: cpuArgs_def)
  then have mid: "netdevDefs (?ds @ ?tl) = 0"
    using tl by (simp add: netdevDefs_drives)
  have hd_tl: "hd ?tl = ''-enable-kvm''"
    by (simp add: cpuArgs_def)
  have "\<not> prefix ''user,id=net0'' (hd (?ds @ ?tl))"
  proof (cases "?ds = []")
    case True
    then have "hd (?ds @ ?tl) = hd ?tl" by (simp only: append_Nil)
    then show ?thesis using hd_tl by simp
  next
    case False
    then have h: "hd (?ds @ ?tl) = hd ?ds" by (rule hd_append2)
    from hd_drives [of 0 "Drives c"] False
    have "\<not> prefix ''user,id=net0'' (hd ?ds)" by blast
    then show ?thesis unfolding h .
  qed
  then have "netdevDefs (preambleArgs c @ (?ds @ ?tl))
      = netdevDefs (preambleArgs c) + netdevDefs (?ds @ ?tl)"
    by (intro netdevDefs_append disjI2)
  then have "netdevDefs (preambleArgs c @ (?ds @ ?tl)) = 0"
    using mid by (simp add: preambleArgs_def)
  then show ?thesis
    by (simp add: driveLoop_concat)
qed

lemma netdevDefs_with_ports:
  "netdevDefs ((driveLoop 0 (Drives c) (preambleArgs c) @ cpuArgs c' @ displayArgs c'')
      @ [''-netdev'', ''user,id=net0,hostfwd='' @ s]) = 1"
proof -
  let ?b = "driveLoop 0 (Drives c) (preambleArgs c) @ cpuArgs c' @ displayArgs c''"
  have "netdevDefs (?b @ [''-netdev'', ''user,id=net0,hostfwd='' @ s])
      = netdevDefs ?b + netdevDefs [''-netdev'', ''user,id=net0,hostfwd='' @ s]"
    by (rule netdevDefs_append) simp
  then show ?thesis
    by (simp add: netdevDefs_before_ports)
qed

text \<open>Evaluation of the decimal rendering on numerals.\<close>

lemmas fmt_eval =
  fmt_d.simps [of "numeral k" for k] fmt_d.simps [of 0] fmt_d.simps [of "Suc k" for k]
  digit_def fmt_uint_def

section \<open>Facts about paths\<close>

declare filepath_Join.simps [simp del]

lemma components_not_Nil: "components s \<noteq> []"
  by (induction s) (auto split: list.splits)

lemma components_append_slash:
  "components (a @ CHR ''/'' # b) = components a @ components b"
proof (induction a)
  case Nil
  then show ?case by simp
next
  case (Cons c a)
  then show ?case
    using components_not_Nil [of a] by (auto split: list.splits)
qed

lemma components_no_slash: "CHR ''/'' \<notin> set s \<Longrightarrow> components s = [s]"
  by (induction s) auto

lemma cleaned_dotdots: "\<not> rooted \<Longrightarrow> \<forall>y \<in> set xs. y = ''..'' \<Longrightarrow> cleaned rooted xs"
  by (induction xs) auto

lemma cleaned_tail: "cleaned rooted (x # xs) \<Longrightarrow> cleaned rooted xs"
  by (auto simp: cleaned_dotdots split: if_splits)

lemma cleanStep_cleaned:
  assumes "cleaned rooted out" and "CHR ''/'' \<notin> set elem"
  shows "cleaned rooted (cleanStep rooted out elem)"
proof (cases "elem = [] \<or> elem = ''.''")
  case True
  then show ?thesis using assms by (auto simp: cleanStep_def)
next
  case False
  note plain = this
  show ?thesis
  proof (cases "elem = ''..''")
    case True
    show ?thesis
    proof (cases out)
      case Nil
      then show ?thesis using True by (simp add: cleanStep_def)
    next
      case (Cons t below)
      then show ?thesis
        using True assms(1) cleaned_tail [of rooted t below]
        by (auto simp: cleanStep_def split: if_splits)
    qed
  next
    case False
    then have "ordinary elem"
      using plain assms(2) by (simp add: ordinary_def)
    then show ?thesis
      using False plain assms(1) by (simp add: cleanStep_def)
  qed
qed

lemma foldl_cleanStep_cleaned:
  "cleaned rooted out \<Longrightarrow> \<forall>x \<in> set xs. CHR ''/'' \<notin> set x \<Longrightarrow>
     cleaned rooted (foldl (cleanStep rooted) out xs)"
  by (induction xs arbitrary: out) (simp_all add: cleanStep_cleaned)

lemma components_slash_free: "\<forall>x \<in> set (components s). CHR ''/'' \<notin> set x"
proof (induction s)
  case Nil
  then show ?case by simp
next
  case (Cons c s)
  then show ?case
    using components_not_Nil [of s] by (cases "components s") auto
qed

lemma cleaned_slash_free: "cleaned rooted out \<Longrightarrow> \<forall>x \<in> set out. CHR ''/'' \<notin> set x"
proof (induction out)
  case Nil
  then show ?case by simp
next
  case (Cons x out)
  then show ?case
    by (auto simp: ordinary_def cleaned_dotdots split: if_splits)
qed

lemma cleaned_not_empty: "cleaned rooted out \<Longrightarrow> \<forall>x \<in> set out. x \<noteq> []"
proof (induction out)
  case Nil
  then show ?case by simp
next
  case (Cons x out)
  then show ?case
    by (auto simp: ordinary_def cleaned_dotdots split: if_splits)
qed

text \<open>Cleaning what is clean changes nothing.\<close>

lemma foldl_cleanStep_rev:
  "cleaned rooted out \<Longrightarrow> foldl (cleanStep rooted) [] (rev out) = out"
proof (induction out)
  case Nil
  then show ?case by simp
next
  case (Cons x out)
  then have ih: "foldl (cleanStep rooted) [] (rev out) = out"
    using cleaned_tail by blast
  have step: "foldl (cleanStep rooted) [] (rev (x # out)) = cleanStep rooted out x"
    by (simp add: ih)
  show ?case
  proof (cases "x = ''..''")
    case True
    then have "\<not> rooted" and "\<forall>y \<in> set out. y = ''..''"
      using Cons.prems by auto
    then have "cleanStep rooted out x = x # out"
      using True by (cases out) (simp_all add: cleanStep_def)
    then show ?thesis
      by (simp only: step)
  next
    case False
    then have "ordinary x"
      using Cons.prems by simp
    then have "cleanStep rooted out x = x # out"
      by (simp add: cleanStep_def ordinary_def)
    then show ?thesis
      by (simp only: step)
  qed
qed

lemma components_strings_Join:
  "xs \<noteq> [] \<Longrightarrow> \<forall>x \<in> set xs. CHR ''/'' \<notin> set x \<Longrightarrow> components (strings_Join xs ''/'') = xs"
proof (induction xs rule: rev_induct)
  case Nil
  then show ?case by simp
next
  case (snoc y ys)
  show ?case
  proof (cases ys)
    case Nil
    then show ?thesis using snoc.prems by (simp add: components_no_slash)
  next
    case (Cons z zs)
    then have "strings_Join (ys @ [y]) ''/'' = strings_Join ys ''/'' @ CHR ''/'' # y"
      by simp
    then have "components (strings_Join (ys @ [y]) ''/'')
        = components (strings_Join ys ''/'') @ components y"
      by (simp only: components_append_slash)
    moreover have "components (strings_Join ys ''/'') = ys"
      using snoc Cons by simp
    moreover have "components y = [y]"
      using snoc.prems by (simp add: components_no_slash)
    ultimately show ?thesis
      by simp
  qed
qed

lemma strings_Join_empty:
  "\<forall>x \<in> set xs. x \<noteq> [] \<Longrightarrow> (strings_Join xs sep = []) = (xs = [])"
  by (cases xs) auto

text \<open>The elements of a cleaned path, cleaned again, are what cleaning the path kept.\<close>

lemma foldl_components_Clean:
  "foldl (cleanStep (isRooted path)) [] (components (filepath_Clean path))
     = foldl (cleanStep (isRooted path)) [] (components path)"
proof -
  let ?r = "isRooted path"
  let ?out = "foldl (cleanStep ?r) [] (components path)"
  let ?body = "strings_Join (rev ?out) ''/''"
  have cl: "cleaned ?r ?out"
    by (rule foldl_cleanStep_cleaned) (simp_all add: components_slash_free)
  have body: "foldl (cleanStep ?r) [] (components ?body) = ?out"
  proof (cases "?out = []")
    case True
    then show ?thesis by (simp add: cleanStep_def)
  next
    case False
    then have "components ?body = rev ?out"
      using cleaned_slash_free [OF cl] by (intro components_strings_Join) auto
    then show ?thesis
      using foldl_cleanStep_rev [OF cl] by simp
  qed
  have empty: "(?body = []) = (?out = [])"
    using strings_Join_empty [of "rev ?out" "''/''"] cleaned_not_empty [OF cl] by simp
  show ?thesis
  proof (cases ?r)
    case True
    then have "filepath_Clean path = CHR ''/'' # ?body"
      by (simp add: filepath_Clean_def Let_def)
    then show ?thesis
      using body by (simp add: cleanStep_def)
  next
    case False
    show ?thesis
    proof (cases "?out = []")
      case True
      then have "filepath_Clean path = ''.''"
        using False empty by (simp add: filepath_Clean_def Let_def)
      then show ?thesis
        using True by (simp add: cleanStep_def)
    next
      case nonempty: False
      then have "filepath_Clean path = ?body"
        using False empty by (simp add: filepath_Clean_def Let_def)
      then show ?thesis
        using body by simp
    qed
  qed
qed

lemma filepath_Clean_not_empty: "filepath_Clean path \<noteq> []"
  by (simp add: filepath_Clean_def Let_def)

lemma isRooted_Clean: "isRooted (filepath_Clean path) = isRooted path"
proof (cases "isRooted path")
  case True
  then show ?thesis by (simp add: filepath_Clean_def Let_def isRooted_def)
next
  case False
  let ?out = "foldl (cleanStep False) [] (components path)"
  have cl: "cleaned False ?out"
    by (rule foldl_cleanStep_cleaned) (simp_all add: components_slash_free)
  have "\<not> isRooted (strings_Join (rev ?out) ''/'')"
  proof (cases "rev ?out")
    case Nil
    then show ?thesis by (simp add: isRooted_def)
  next
    case (Cons x xs)
    then have "x \<in> set ?out"
      by (metis list.set_intros(1) set_rev)
    then have "x \<noteq> []" and "CHR ''/'' \<notin> set x"
      using cleaned_not_empty [OF cl] cleaned_slash_free [OF cl] by auto
    then show ?thesis
      using Cons by (cases x) (auto simp: isRooted_def)
  qed
  then show ?thesis
    using False by (simp add: filepath_Clean_def Let_def isRooted_def)
qed

lemma isRooted_append: "p \<noteq> [] \<Longrightarrow> isRooted (p @ q) = isRooted p"
  by (cases p) (simp_all add: isRooted_def)

text \<open>Joining onto a cleaned path is joining onto the path.\<close>

lemma Clean_Clean_slash:
  assumes "p \<noteq> []"
  shows "filepath_Clean (filepath_Clean p @ CHR ''/'' # f) = filepath_Clean (p @ CHR ''/'' # f)"
proof -
  have r: "isRooted (filepath_Clean p @ CHR ''/'' # f) = isRooted (p @ CHR ''/'' # f)"
    using assms by (simp add: isRooted_append filepath_Clean_not_empty isRooted_Clean)
  have r': "isRooted (p @ CHR ''/'' # f) = isRooted p"
    using assms by (simp add: isRooted_append)
  have "foldl (cleanStep (isRooted p)) [] (components (filepath_Clean p @ CHR ''/'' # f))
      = foldl (cleanStep (isRooted p)) [] (components (p @ CHR ''/'' # f))"
    by (simp add: components_append_slash foldl_components_Clean)
  then show ?thesis
    by (simp add: filepath_Clean_def [of "filepath_Clean p @ CHR ''/'' # f"]
        filepath_Clean_def [of "p @ CHR ''/'' # f"] r r')
qed

text \<open>
  Line 183 joins the file name onto the joined directory, line 155 joins the three
  elements at once: the same path.
\<close>

lemma configPath_same:
  "filepath_Join [filepath_Join [homeDir, ConfigDir], name @ ''.json'']
     = filepath_Join [homeDir, ConfigDir, name @ ''.json'']"
proof (cases "homeDir = []")
  case True
  have "filepath_Clean (filepath_Clean ConfigDir @ CHR ''/'' # (name @ ''.json''))
      = filepath_Clean (ConfigDir @ CHR ''/'' # (name @ ''.json''))"
    by (rule Clean_Clean_slash) (simp add: ConfigDir_def)
  then show ?thesis
    using True by (simp add: filepath_Join.simps filepath_Clean_not_empty ConfigDir_def)
next
  case False
  have "filepath_Clean (filepath_Clean (homeDir @ CHR ''/'' # ConfigDir) @ CHR ''/'' # (name @ ''.json''))
      = filepath_Clean ((homeDir @ CHR ''/'' # ConfigDir) @ CHR ''/'' # (name @ ''.json''))"
    by (rule Clean_Clean_slash) simp
  then show ?thesis
    using False by (simp add: filepath_Join.simps filepath_Clean_not_empty)
qed

section \<open>Claims about the argument builder\<close>

text \<open>
  C1. A drive whose path is empty, or whose type is none of img, qcow2 and iso, adds no
  string to the argument list, whatever its other field is, and every other drive adds
  some: the list is the fixed arguments, then what each drive adds at its index, then
  the arguments of lines 226-236, and what a drive adds is empty exactly in those cases.
\<close>

theorem drives_skipped_emit_nothing:
  "fst (buildArgs n c) =
     preambleArgs c
       @ concat (map (\<lambda>(i, d). driveArgs i d) (enumerate 0 (Drives c)))
       @ cpuArgs (resolveCores n c) @ displayArgs c @ netdevArgs c
   \<and> ((driveArgs i d = []) = (Path d = '''' \<or> Type d \<notin> {''img'', ''qcow2'', ''iso''}))"
proof -
  have "(driveArgs i d = []) = (Path d = '''' \<or> Type d \<notin> {''img'', ''qcow2'', ''iso''})"
    by (simp add: driveArgs_def)
  then show ?thesis
    by (simp add: buildArgs_fst driveLoop_concat)
qed

theorem drives_skipped_emit_nothing_witness:
  "fst (buildArgs 8 \<lparr>Name = ''vm'', Memory = ''2G'',
      Drives = [\<lparr>Path = ''a.img'', Type = ''img''\<rparr>, \<lparr>Path = '''', Type = ''qcow2''\<rparr>,
                \<lparr>Path = ''x.vdi'', Type = ''vdi''\<rparr>, \<lparr>Path = ''b.img'', Type = ''img''\<rparr>],
      Ports = [], Cores = 2, Fullscreen = False\<rparr>) =
    [''-m'', ''2G'', ''-machine'', ''q35'', ''-device'', ''qemu-xhci,id=xhci'',
     ''-device'', ''usb-kbd'', ''-device'', ''usb-tablet'',
     ''-device'', ''virtio-net,netdev=net0'',
     ''-drive'', ''if=none,id=usb0,format=raw,file=a.img'',
     ''-device'', ''usb-storage,bus=xhci.0,drive=usb0'',
     ''-drive'', ''if=none,id=usb3,format=raw,file=b.img'',
     ''-device'', ''usb-storage,bus=xhci.0,drive=usb3'',
     ''-enable-kvm'', ''-cpu'', ''host'', ''-smp'', ''2'']
   \<and> driveArgs 1 \<lparr>Path = '''', Type = ''qcow2''\<rparr> = []
   \<and> driveArgs 2 \<lparr>Path = ''x.vdi'', Type = ''vdi''\<rparr> = []"
  using
    drives_skipped_emit_nothing [of 8 "\<lparr>Name = ''vm'', Memory = ''2G'',
      Drives = [\<lparr>Path = ''a.img'', Type = ''img''\<rparr>, \<lparr>Path = '''', Type = ''qcow2''\<rparr>,
                \<lparr>Path = ''x.vdi'', Type = ''vdi''\<rparr>, \<lparr>Path = ''b.img'', Type = ''img''\<rparr>],
      Ports = [], Cores = 2, Fullscreen = False\<rparr>" 1 "\<lparr>Path = '''', Type = ''qcow2''\<rparr>"]
    drives_skipped_emit_nothing [of 8 "\<lparr>Name = ''vm'', Memory = ''2G'',
      Drives = [\<lparr>Path = ''a.img'', Type = ''img''\<rparr>, \<lparr>Path = '''', Type = ''qcow2''\<rparr>,
                \<lparr>Path = ''x.vdi'', Type = ''vdi''\<rparr>, \<lparr>Path = ''b.img'', Type = ''img''\<rparr>],
      Ports = [], Cores = 2, Fullscreen = False\<rparr>" 2 "\<lparr>Path = ''x.vdi'', Type = ''vdi''\<rparr>"]
  by (simp add: preambleArgs_def enumerate_eq_zip upt_rec driveArgs_def cpuArgs_def
      resolveCores_def displayArgs_def netdevArgs_def fmt_eval)

text \<open>
  C2. With no port the builder adds nothing for the network after the display
  arguments, and no \<^verbatim>\<open>-netdev\<close> option defining net0 stands in the list; with ports it
  adds one \<^verbatim>\<open>-netdev\<close> option, the only one in the list, whose forward list is the
  forwards \<^verbatim>\<open>tcp::{host}-:{guest}\<close> of the ports in their order, joined by commas.
  For the single port guest 22, host 2222 the forward list is \<^verbatim>\<open>tcp::2222-:22\<close>: see
  the witness.
\<close>

theorem ports_forwarding_argument:
  "fst (buildArgs n c) =
      (driveLoop 0 (Drives c) (preambleArgs c) @ cpuArgs (resolveCores n c) @ displayArgs c)
        @ netdevArgs c
   \<and> (Ports c = [] \<longrightarrow> netdevArgs c = [] \<and> netdevDefs (fst (buildArgs n c)) = 0)
   \<and> (Ports c \<noteq> [] \<longrightarrow>
        netdevArgs c =
          [''-netdev'',
           ''user,id=net0,hostfwd='' @ strings_Join (map portForward (Ports c)) '','']
        \<and> netdevDefs (fst (buildArgs n c)) = 1)
   \<and> (Ports c = [\<lparr>Guest = 22, Host = 2222\<rparr>] \<longrightarrow>
        netdevArgs c = [''-netdev'', ''user,id=net0,hostfwd=tcp::2222-:22''])"
proof -
  have eq: "fst (buildArgs n c) =
      (driveLoop 0 (Drives c) (preambleArgs c) @ cpuArgs (resolveCores n c) @ displayArgs c)
        @ netdevArgs c"
    by (simp add: buildArgs_fst)
  have e: "netdevArgs c = []" if "Ports c = []"
    using that by (simp add: netdevArgs_def)
  have ne: "netdevArgs c =
      [''-netdev'', ''user,id=net0,hostfwd='' @ strings_Join (map portForward (Ports c)) '','']"
    if "Ports c \<noteq> []"
    using that by (simp add: netdevArgs_def fwdLoop_map)
  have z: "netdevDefs (fst (buildArgs n c)) = 0" if "Ports c = []"
    using netdevDefs_before_ports [of c "resolveCores n c" c] by (simp add: eq e [OF that])
  have o: "netdevDefs (fst (buildArgs n c)) = 1" if "Ports c \<noteq> []"
    using netdevDefs_with_ports [of c "resolveCores n c" c] by (simp only: eq ne [OF that])
  have ex: "netdevArgs c = [''-netdev'', ''user,id=net0,hostfwd=tcp::2222-:22'']"
    if "Ports c = [\<lparr>Guest = 22, Host = 2222\<rparr>]"
    using that by (simp add: netdevArgs_def fmt_eval)
  show ?thesis
    using eq e ne z o ex by blast
qed

theorem ports_forwarding_argument_witness:
  "netdevArgs \<lparr>Name = ''vm'', Memory = ''2G'', Drives = [], Ports = [],
      Cores = 2, Fullscreen = False\<rparr> = []
   \<and> netdevDefs (fst (buildArgs 8 \<lparr>Name = ''vm'', Memory = ''2G'', Drives = [], Ports = [],
      Cores = 2, Fullscreen = False\<rparr>)) = 0
   \<and> netdevArgs \<lparr>Name = ''vm'', Memory = ''2G'', Drives = [],
      Ports = [\<lparr>Guest = 22, Host = 2222\<rparr>], Cores = 2, Fullscreen = False\<rparr>
      = [''-netdev'', ''user,id=net0,hostfwd=tcp::2222-:22'']
   \<and> netdevArgs \<lparr>Name = ''vm'', Memory = ''2G'', Drives = [],
      Ports = [\<lparr>Guest = 22, Host = 2222\<rparr>, \<lparr>Guest = 80, Host = 8080\<rparr>],
      Cores = 2, Fullscreen = False\<rparr>
      = [''-netdev'', ''user,id=net0,hostfwd=tcp::2222-:22,tcp::8080-:80'']
   \<and> netdevDefs (fst (buildArgs 8 \<lparr>Name = ''vm'', Memory = ''2G'', Drives = [],
      Ports = [\<lparr>Guest = 22, Host = 2222\<rparr>, \<lparr>Guest = 80, Host = 8080\<rparr>],
      Cores = 2, Fullscreen = False\<rparr>)) = 1
   \<and> strings_Join (map portForward [\<lparr>Guest = 22, Host = 2222\<rparr>]) '','' = ''tcp::2222-:22''"
  using
    ports_forwarding_argument [of 8 "\<lparr>Name = ''vm'', Memory = ''2G'', Drives = [], Ports = [],
      Cores = 2, Fullscreen = False\<rparr>"]
    ports_forwarding_argument [of 8 "\<lparr>Name = ''vm'', Memory = ''2G'', Drives = [],
      Ports = [\<lparr>Guest = 22, Host = 2222\<rparr>], Cores = 2, Fullscreen = False\<rparr>"]
    ports_forwarding_argument [of 8 "\<lparr>Name = ''vm'', Memory = ''2G'', Drives = [],
      Ports = [\<lparr>Guest = 22, Host = 2222\<rparr>, \<lparr>Guest = 80, Host = 8080\<rparr>],
      Cores = 2, Fullscreen = False\<rparr>"]
  by (simp add: portForward_def fmt_eval buildArgs_fst preambleArgs_def cpuArgs_def
      resolveCores_def displayArgs_def netdevArgs_def)

text \<open>
  C3. The value after \<^verbatim>\<open>-smp\<close> is the decimal host processor count where the stored
  cores value is 0, and the stored value in decimal otherwise. The processor count of
  a host is not negative and fits the 64 bits of the conversion on line 224.
\<close>

theorem smp_core_count:
  assumes "0 \<le> n" and "n < 2 ^ 64"
  shows "fst (buildArgs n c) =
     driveLoop 0 (Drives c) (preambleArgs c)
       @ [''-enable-kvm'', ''-cpu'', ''host'', ''-smp'',
          (if Cores c = 0 then fmt_d (nat n) else fmt_d (unat (Cores c)))]
       @ displayArgs c @ netdevArgs c"
proof -
  have "unat (word_of_int n :: uint) = nat n"
    using assms by (simp add: unat_eq_nat_uint uint_word_of_int take_bit_int_eq_self)
  then show ?thesis
    by (simp add: buildArgs_fst resolveCores_def cpuArgs_def fmt_uint_def)
qed

theorem smp_core_count_witness:
  "(0::int) \<le> 8 \<and> (8::int) < 2 ^ 64
   \<and> fst (buildArgs 8 \<lparr>Name = ''vm'', Memory = ''2G'', Drives = [], Ports = [],
        Cores = 0, Fullscreen = False\<rparr>) =
    [''-m'', ''2G'', ''-machine'', ''q35'', ''-device'', ''qemu-xhci,id=xhci'',
     ''-device'', ''usb-kbd'', ''-device'', ''usb-tablet'',
     ''-device'', ''virtio-net,netdev=net0'',
     ''-enable-kvm'', ''-cpu'', ''host'', ''-smp'', ''8'']
   \<and> fst (buildArgs 8 \<lparr>Name = ''vm'', Memory = ''2G'', Drives = [], Ports = [],
        Cores = 4, Fullscreen = False\<rparr>) =
    [''-m'', ''2G'', ''-machine'', ''q35'', ''-device'', ''qemu-xhci,id=xhci'',
     ''-device'', ''usb-kbd'', ''-device'', ''usb-tablet'',
     ''-device'', ''virtio-net,netdev=net0'',
     ''-enable-kvm'', ''-cpu'', ''host'', ''-smp'', ''4'']"
proof -
  have h1: "(0::int) \<le> 8" and h2: "(8::int) < 2 ^ 64" by simp_all
  show ?thesis
    using h1 h2
      smp_core_count [OF h1 h2, of "\<lparr>Name = ''vm'', Memory = ''2G'', Drives = [], Ports = [],
        Cores = 0, Fullscreen = False\<rparr>"]
      smp_core_count [OF h1 h2, of "\<lparr>Name = ''vm'', Memory = ''2G'', Drives = [], Ports = [],
        Cores = 4, Fullscreen = False\<rparr>"]
    by (simp add: preambleArgs_def displayArgs_def netdevArgs_def fmt_eval)
qed

text \<open>
  C4, as the claim states it, fails: building the arguments for a record whose cores
  value is 0 on a host with 8 processors leaves 8 in the record.
\<close>

theorem buildArgs_overwrites_cores_counterexample:
  "Cores (snd (buildArgs 8 \<lparr>Name = ''vm'', Memory = ''2G'', Drives = [], Ports = [],
      Cores = 0, Fullscreen = False\<rparr>)) = 8
   \<and> snd (buildArgs 8 \<lparr>Name = ''vm'', Memory = ''2G'', Drives = [], Ports = [],
      Cores = 0, Fullscreen = False\<rparr>)
       \<noteq> \<lparr>Name = ''vm'', Memory = ''2G'', Drives = [], Ports = [], Cores = 0,
           Fullscreen = False\<rparr>"
  by (simp add: buildArgs_def Let_def resolveCores_def)

text \<open>
  C4, amended. Building the argument list leaves every field of the record but cores
  unchanged; a cores value other than 0 is unchanged, and a cores value of 0 is replaced
  in the record in memory by the host's processor count. launchVM writes nothing to the
  file system itself: what it leaves is what the hypervisor process leaves.
\<close>

theorem buildArgs_record_effect:
  "snd (buildArgs n c) = (if Cores c = 0 then c\<lparr>Cores := word_of_int n\<rparr> else c)
   \<and> filesys (snd (launchVM e (Some c) w))
       = snd (run_cmd e QemuExec (fst (buildArgs (NumCPU e) c)) (filesys w))"
proof -
  have a: "snd (buildArgs n c) = (if Cores c = 0 then c\<lparr>Cores := word_of_int n\<rparr> else c)"
    by (simp add: buildArgs_snd resolveCores_def)
  obtain args c' where b: "buildArgs (NumCPU e) c = (args, c')"
    by (cases "buildArgs (NumCPU e) c")
  obtain err fs' where r: "run_cmd e QemuExec args (filesys w) = (err, fs')"
    by (cases "run_cmd e QemuExec args (filesys w)")
  have "filesys (snd (launchVM e (Some c) w)) = fs'"
    using b r by (cases err) (simp_all add: launchVM_def Run_def emit_def Let_def)
  then show ?thesis
    using a b r by simp
qed

theorem buildArgs_record_effect_witness:
  "snd (buildArgs 8 \<lparr>Name = ''vm'', Memory = ''2G'', Drives = [], Ports = [],
      Cores = 0, Fullscreen = True\<rparr>)
     = \<lparr>Name = ''vm'', Memory = ''2G'', Drives = [], Ports = [], Cores = 8, Fullscreen = True\<rparr>
   \<and> snd (buildArgs 8 \<lparr>Name = ''vm'', Memory = ''2G'', Drives = [], Ports = [],
      Cores = 4, Fullscreen = True\<rparr>)
     = \<lparr>Name = ''vm'', Memory = ''2G'', Drives = [], Ports = [], Cores = 4, Fullscreen = True\<rparr>"
  using
    buildArgs_record_effect [of 8 "\<lparr>Name = ''vm'', Memory = ''2G'', Drives = [], Ports = [],
      Cores = 0, Fullscreen = True\<rparr>"]
    buildArgs_record_effect [of 8 "\<lparr>Name = ''vm'', Memory = ''2G'', Drives = [], Ports = [],
      Cores = 4, Fullscreen = True\<rparr>"]
  by simp

text \<open>
  C10. The list begins with the twelve fixed arguments, the last two of which attach
  a network card to the device net0, for every record; with no port, no \<^verbatim>\<open>-netdev\<close>
  option in the list defines net0.
\<close>

theorem net0_referenced_without_definition:
  "take 12 (fst (buildArgs n c)) =
     [''-m'', Memory c, ''-machine'', ''q35'', ''-device'', ''qemu-xhci,id=xhci'',
      ''-device'', ''usb-kbd'', ''-device'', ''usb-tablet'',
      ''-device'', ''virtio-net,netdev=net0'']
   \<and> fst (buildArgs n c) ! 10 = ''-device''
   \<and> fst (buildArgs n c) ! 11 = ''virtio-net,netdev=net0''
   \<and> (Ports c = [] \<longrightarrow> netdevDefs (fst (buildArgs n c)) = 0)"
proof -
  let ?rest = "concat (map (\<lambda>(i, d). driveArgs i d) (enumerate 0 (Drives c)))
       @ cpuArgs (resolveCores n c) @ displayArgs c @ netdevArgs c"
  have eq: "fst (buildArgs n c) = preambleArgs c @ ?rest"
    by (simp add: buildArgs_fst driveLoop_concat)
  have len: "length (preambleArgs c) = 12"
    by (simp add: preambleArgs_def)
  have a: "take 12 (fst (buildArgs n c)) = preambleArgs c"
    using len by (simp add: eq)
  have i10: "fst (buildArgs n c) ! 10 = preambleArgs c ! 10"
    using len by (simp add: eq nth_append)
  have i11: "fst (buildArgs n c) ! 11 = preambleArgs c ! 11"
    using len by (simp add: eq nth_append)
  have b: "netdevDefs (fst (buildArgs n c)) = 0" if "Ports c = []"
    using that netdevDefs_before_ports [of c "resolveCores n c" c]
    by (simp add: buildArgs_fst netdevArgs_def)
  show ?thesis
    using a i10 i11 b by (simp add: preambleArgs_def)
qed

theorem net0_referenced_without_definition_witness:
  "fst (buildArgs 8 \<lparr>Name = ''vm'', Memory = ''2G'', Drives = [], Ports = [],
        Cores = 2, Fullscreen = False\<rparr>) =
    [''-m'', ''2G'', ''-machine'', ''q35'', ''-device'', ''qemu-xhci,id=xhci'',
     ''-device'', ''usb-kbd'', ''-device'', ''usb-tablet'',
     ''-device'', ''virtio-net,netdev=net0'',
     ''-enable-kvm'', ''-cpu'', ''host'', ''-smp'', ''2'']
   \<and> netdevDefs (fst (buildArgs 8 \<lparr>Name = ''vm'', Memory = ''2G'', Drives = [], Ports = [],
        Cores = 2, Fullscreen = False\<rparr>)) = 0"
  using net0_referenced_without_definition [of 8 "\<lparr>Name = ''vm'', Memory = ''2G'',
        Drives = [], Ports = [], Cores = 2, Fullscreen = False\<rparr>"]
  by (simp add: buildArgs_fst preambleArgs_def cpuArgs_def resolveCores_def displayArgs_def
      netdevArgs_def fmt_eval)


section \<open>Claims about the configuration store\<close>

lemmas path_eval =
  filepath_Join.simps filepath_Clean_def isRooted_def cleanStep_def Let_def ConfigDir_def

text \<open>What a successful writeConfig has done.\<close>

lemma writeConfig_success:
  assumes "writeConfig e name c fs = (Inr path, fs')"
  shows "\<exists>homeDir bytes.
     user_Current e = Inr homeDir
     \<and> path = filepath_Join [homeDir, ConfigDir, name @ ''.json'']
     \<and> json_Encode e c = Inr bytes
     \<and> files fs' path = Some bytes
     \<and> fault fs' = fault fs"
proof -
  obtain homeDir where h: "user_Current e = Inr homeDir"
    using assms by (cases "user_Current e") (simp_all add: writeConfig_def)
  let ?dir = "filepath_Join [homeDir, ConfigDir]"
  let ?p = "filepath_Join [?dir, name @ ''.json'']"
  obtain fs1 where m: "os_MkdirAll fs ?dir = Inr fs1"
    using assms h by (cases "os_MkdirAll fs ?dir") (simp_all add: writeConfig_def Let_def)
  obtain fs2 where c: "os_Create fs1 ?p = Inr fs2"
    using assms h m by (cases "os_Create fs1 ?p") (simp_all add: writeConfig_def Let_def)
  obtain bytes where j: "json_Encode e c = Inr bytes"
    using assms h m c by (cases "json_Encode e c") (simp_all add: writeConfig_def Let_def)
  obtain fs3 where w: "file_Write fs2 ?p bytes = Inr fs3"
    using assms h m c j by (cases "file_Write fs2 ?p bytes") (simp_all add: writeConfig_def Let_def)
  have res: "path = ?p" "fs' = fs3"
    using assms h m c j w by (simp_all add: writeConfig_def Let_def)
  have f1: "fault fs1 = fault fs"
    using m by (auto simp: os_MkdirAll_def split: option.splits)
  have f2: "fault fs2 = fault fs1" and c2: "files fs2 ?p = Some []"
    using c by (auto simp: os_Create_def split: option.splits)
  have f3: "fault fs3 = fault fs2" and c3: "files fs3 ?p = Some bytes"
    using w c2 by (auto simp: file_Write_def split: option.splits)
  show ?thesis
    using h j res f1 f2 f3 c3 configPath_same [of homeDir name] by simp
qed

text \<open>
  C5. Where writeConfig has succeeded for a name and a valid record, and the file it
  wrote can be opened and read, readConfig of the same name returns the record as it
  was written; a cores value of 0 is stored and returned as 0.
\<close>

theorem save_then_load_round_trip:
  assumes "writeConfig e name c fs = (Inr path, fs')"
    and "json_round_trips e c"
    and "fault fs' OpOpen path = None"
    and "fault fs' OpRead path = None"
  shows "readConfig e name fs' = Inr (Some c)"
proof -
  obtain homeDir bytes where h: "user_Current e = Inr homeDir"
    and p: "path = filepath_Join [homeDir, ConfigDir, name @ ''.json'']"
    and j: "json_Encode e c = Inr bytes"
    and f: "files fs' path = Some bytes"
    using writeConfig_success [OF assms(1)] by blast
  have d: "json_Decode e bytes = Inr (Some c)"
    using assms(2) j by (simp add: json_round_trips_def)
  have "os_Open fs' path = Inr bytes"
    using assms(3) f by (simp add: os_Open_def)
  moreover have "file_Read fs' path bytes = Inr bytes"
    using assms(4) by (simp add: file_Read_def)
  ultimately show ?thesis
    using h p d by (simp add: readConfig_def)
qed

theorem save_then_load_round_trip_witness:
  "fst (writeConfig demoHost ''vm1'' demoConfig emptyFs)
     = Inr ''/home/u/.config/qmgr/configs/vm1.json''
   \<and> json_round_trips demoHost demoConfig
   \<and> Cores demoConfig = 0
   \<and> readConfig demoHost ''vm1'' (snd (writeConfig demoHost ''vm1'' demoConfig emptyFs))
       = Inr (Some demoConfig)"
proof -
  let ?p = "''/home/u/.config/qmgr/configs/vm1.json''"
  let ?fs = "snd (writeConfig demoHost ''vm1'' demoConfig emptyFs)"
  have w: "fst (writeConfig demoHost ''vm1'' demoConfig emptyFs) = Inr ?p"
    by (simp add: writeConfig_def os_MkdirAll_def os_Create_def file_Write_def
        demoHost_def demoConfig_def emptyFs_def path_eval)
  then have w': "writeConfig demoHost ''vm1'' demoConfig emptyFs = (Inr ?p, ?fs)"
    by (simp add: prod_eq_iff)
  have r: "json_round_trips demoHost demoConfig"
    by (simp add: json_round_trips_def demoHost_def demoConfig_def emptyFs_def)
  have fl: "fault ?fs = fault emptyFs"
    using writeConfig_success [OF w'] by blast
  have o: "fault ?fs OpOpen ?p = None" and rd: "fault ?fs OpRead ?p = None"
    unfolding fl by (simp_all add: emptyFs_def)
  show ?thesis
    using w r save_then_load_round_trip [OF w' r o rd]
    by (simp add: demoConfig_def)
qed

text \<open>
  C6. Where the configuration directory of the user does not exist, listConfigs
  returns the empty list and no error; where reading the directory fails with any
  error other than one that \<^verbatim>\<open>os.IsNotExist\<close> recognises, it returns that error, wrapped.
\<close>

theorem listConfigs_directory_errors:
  assumes "user_Current e = Inr homeDir"
  shows "(dirs fs (filepath_Join [homeDir, ConfigDir]) = None \<longrightarrow> listConfigs e fs = Inr [])
    \<and> (os_ReadDir fs (filepath_Join [homeDir, ConfigDir]) = (entries, Some err)
          \<and> \<not> os_IsNotExist err \<longrightarrow>
        listConfigs e fs = Inl (Errorf ''reading config file directory'' err))"
  using assms by (simp add: listConfigs_def os_ReadDir_def)

theorem listConfigs_directory_errors_witness:
  "user_Current demoHost = Inr ''/home/u''
   \<and> dirs emptyFs (filepath_Join [''/home/u'', ConfigDir]) = None
   \<and> listConfigs demoHost emptyFs = Inr []
   \<and> os_ReadDir (emptyFs\<lparr>dirs := [''/home/u/.config/qmgr/configs'' \<mapsto>
          ([], Some (ErrOther ''permission denied''))]\<rparr>) (filepath_Join [''/home/u'', ConfigDir])
       = ([], Some (ErrOther ''permission denied''))
   \<and> \<not> os_IsNotExist (ErrOther ''permission denied'')
   \<and> listConfigs demoHost (emptyFs\<lparr>dirs := [''/home/u/.config/qmgr/configs'' \<mapsto>
          ([], Some (ErrOther ''permission denied''))]\<rparr>)
       = Inl (Errorf ''reading config file directory'' (ErrOther ''permission denied''))"
proof -
  let ?fs = "emptyFs\<lparr>dirs := [''/home/u/.config/qmgr/configs'' \<mapsto>
          ([], Some (ErrOther ''permission denied''))]\<rparr>"
  have u: "user_Current demoHost = Inr ''/home/u''"
    by (simp add: demoHost_def)
  have d: "dirs emptyFs (filepath_Join [''/home/u'', ConfigDir]) = None"
    by (simp add: emptyFs_def)
  have r: "os_ReadDir ?fs (filepath_Join [''/home/u'', ConfigDir])
       = ([], Some (ErrOther ''permission denied''))"
    by (simp add: os_ReadDir_def path_eval)
  have n: "\<not> os_IsNotExist (ErrOther ''permission denied'')"
    by simp
  show ?thesis
    using u d r n
      listConfigs_directory_errors [OF u, of emptyFs "[]" "ErrOther ''permission denied''"]
      listConfigs_directory_errors [OF u, of ?fs "[]" "ErrOther ''permission denied''"]
    by simp
qed


section \<open>Claims about the command line\<close>

text \<open>
  C7. \<^verbatim>\<open>create vm1 32G\<close>, for a user with a home directory: the disk image tool is run
  with the five arguments; whether it fails or not, the record of lines 84-105 is
  written to \<^verbatim>\<open>vm1.json\<close> in the configuration directory, its path is printed, and the
  editor is run on that path. The qcow2 drive of the record has the path of the disk
  image, which is the empty string where the tool has failed; such a failure is printed
  to the error stream before the record is written. The hypotheses: the tool's and the
  editor's results, and that writing the record succeeds.
\<close>

theorem create_vm1_scenario:
  assumes home: "user_Current e = Inr homeDir"
    and disk: "run_cmd e QemuImg
        [''create'', ''-f'', ''qcow2'', filepath_Join [homeDir, DiskDir, ''vm1.qcow2''], ''32G'']
        (filesys w) = (derr, fs1)"
    and path: "diskPath =
        (case derr of None \<Rightarrow> filepath_Join [homeDir, DiskDir, ''vm1.qcow2''] | Some er \<Rightarrow> [])"
    and conf: "config = templateConfig ''vm1'' diskPath"
    and save: "writeConfig e ''vm1'' config fs1 = (Inr configPath, fs2)"
    and edit: "run_cmd e (editorName e) [configPath] fs2 = (eerr, fs3)"
  shows "configPath = filepath_Join [homeDir, ConfigDir, ''vm1.json'']
    \<and> map_option Inr (files fs2 configPath) = Some (json_Encode e config)
    \<and> Drives config = [\<lparr>Path = [], Type = ''img''\<rparr>, \<lparr>Path = diskPath, Type = ''qcow2''\<rparr>,
          \<lparr>Path = [], Type = ''iso''\<rparr>]
    \<and> Ports config = [\<lparr>Guest = 22, Host = 2222\<rparr>]
    \<and> main e [prog, ''create'', ''vm1'', ''32G''] w =
        ((case eerr of None \<Rightarrow> Exit 0 | Some er \<Rightarrow> Exit 1),
         \<lparr>filesys = fs3,
          events = events w
            @ [Exec QemuImg [''create'', ''-f'', ''qcow2'',
                 filepath_Join [homeDir, DiskDir, ''vm1.qcow2''], ''32G'']]
            @ (case derr of None \<Rightarrow> []
               | Some er \<Rightarrow> [Stderr (''creating disk image: '' @ Error er @ [CHR 0x0A])])
            @ [Stdout (configPath @ [CHR 0x0A]), Exec (editorName e) [configPath]]
            @ (case eerr of None \<Rightarrow> []
               | Some er \<Rightarrow>
                   [Stderr (''editing config: opening editor: '' @ Error er @ [CHR 0x0A])])\<rparr>)"
proof -
  obtain bytes where p: "configPath = filepath_Join [homeDir, ConfigDir, ''vm1.json'']"
    and j: "json_Encode e config = Inr bytes"
    and f: "files fs2 configPath = Some bytes"
    using writeConfig_success [OF save] home by auto
  have t: "Drives config = [\<lparr>Path = [], Type = ''img''\<rparr>, \<lparr>Path = diskPath, Type = ''qcow2''\<rparr>,
          \<lparr>Path = [], Type = ''iso''\<rparr>]" "Ports config = [\<lparr>Guest = 22, Host = 2222\<rparr>]"
    by (simp_all add: conf templateConfig_def)
  have d: "newDisk e ''vm1'' ''32G'' w =
      ((diskPath, map_option (Errorf ''creating disk image'') derr),
       \<lparr>filesys = fs1,
        events = events w @ [Exec QemuImg [''create'', ''-f'', ''qcow2'',
          filepath_Join [homeDir, DiskDir, ''vm1.qcow2''], ''32G'']]\<rparr>)"
    using home disk path by (cases derr) (simp_all add: newDisk_def Run_def emit_def Let_def)
  have ed: "editor e configPath \<lparr>filesys = fs2, events = evs\<rparr> =
      (map_option (Errorf ''opening editor'') eerr,
       \<lparr>filesys = fs3, events = evs @ [Exec (editorName e) [configPath]]\<rparr>)" for evs
    using edit by (cases eerr) (simp_all add: editor_def Run_def emit_def Let_def)
  have m: "main e [prog, ''create'', ''vm1'', ''32G''] w =
        ((case eerr of None \<Rightarrow> Exit 0 | Some er \<Rightarrow> Exit 1),
         \<lparr>filesys = fs3,
          events = events w
            @ [Exec QemuImg [''create'', ''-f'', ''qcow2'',
                 filepath_Join [homeDir, DiskDir, ''vm1.qcow2''], ''32G'']]
            @ (case derr of None \<Rightarrow> []
               | Some er \<Rightarrow> [Stderr (''creating disk image: '' @ Error er @ [CHR 0x0A])])
            @ [Stdout (configPath @ [CHR 0x0A]), Exec (editorName e) [configPath]]
            @ (case eerr of None \<Rightarrow> []
               | Some er \<Rightarrow>
                   [Stderr (''editing config: opening editor: '' @ Error er @ [CHR 0x0A])])\<rparr>)"
    using d ed save conf
    by (cases derr; cases eerr)
      (simp_all add: main_def cmdCreate_def Let_def Println_def Fprintln_Stderr_def emit_def)
  show ?thesis
    using p j f t m by simp
qed

theorem create_vm1_scenario_witness:
  "user_Current demoHost = Inr ''/home/u''
   \<and> fst (writeConfig demoHost ''vm1''
        (templateConfig ''vm1'' ''/home/u/.config/qmgr/disks/vm1.qcow2'') emptyFs)
       = Inr ''/home/u/.config/qmgr/configs/vm1.json''
   \<and> main demoHost [''qmgr'', ''create'', ''vm1'', ''32G''] emptyWorld =
       (Exit 0,
        \<lparr>filesys = snd (writeConfig demoHost ''vm1''
           (templateConfig ''vm1'' ''/home/u/.config/qmgr/disks/vm1.qcow2'') emptyFs),
         events =
           [Exec ''qemu-img''
              [''create'', ''-f'', ''qcow2'', ''/home/u/.config/qmgr/disks/vm1.qcow2'', ''32G''],
            Stdout (''/home/u/.config/qmgr/configs/vm1.json'' @ [CHR 0x0A]),
            Exec ''vi'' [''/home/u/.config/qmgr/configs/vm1.json'']]\<rparr>)
   \<and> files (snd (writeConfig demoHost ''vm1''
        (templateConfig ''vm1'' ''/home/u/.config/qmgr/disks/vm1.qcow2'') emptyFs))
        ''/home/u/.config/qmgr/configs/vm1.json'' = Some ''config vm1''
   \<and> main brokenDiskHost [''qmgr'', ''create'', ''vm1'', ''32G''] emptyWorld =
       (Exit 0,
        \<lparr>filesys = snd (writeConfig brokenDiskHost ''vm1'' (templateConfig ''vm1'' []) emptyFs),
         events =
           [Exec ''qemu-img''
              [''create'', ''-f'', ''qcow2'', ''/home/u/.config/qmgr/disks/vm1.qcow2'', ''32G''],
            Stderr (''creating disk image: exit status 1'' @ [CHR 0x0A]),
            Stdout (''/home/u/.config/qmgr/configs/vm1.json'' @ [CHR 0x0A]),
            Exec ''vi'' [''/home/u/.config/qmgr/configs/vm1.json'']]\<rparr>)"
proof -
  let ?disk = "''/home/u/.config/qmgr/disks/vm1.qcow2''"
  let ?conf = "''/home/u/.config/qmgr/configs/vm1.json''"
  let ?fs2 = "snd (writeConfig demoHost ''vm1'' (templateConfig ''vm1'' ?disk) emptyFs)"
  let ?fs2' = "snd (writeConfig brokenDiskHost ''vm1'' (templateConfig ''vm1'' []) emptyFs)"
  have dp: "filepath_Join [''/home/u'', DiskDir, ''vm1.qcow2''] = ?disk"
    and cp: "filepath_Join [''/home/u'', ConfigDir, ''vm1.json''] = ?conf"
    by (simp_all add: path_eval DiskDir_def)
  have u: "user_Current demoHost = Inr ''/home/u''"
    and u': "user_Current brokenDiskHost = Inr ''/home/u''"
    by (simp_all add: demoHost_def brokenDiskHost_def demoConfig_def emptyFs_def emptyWorld_def)
  have r: "run_cmd demoHost QemuImg
      [''create'', ''-f'', ''qcow2'', filepath_Join [''/home/u'', DiskDir, ''vm1.qcow2''], ''32G'']
      (filesys emptyWorld) = (None, emptyFs)"
    by (simp add: demoHost_def brokenDiskHost_def demoConfig_def emptyFs_def emptyWorld_def)
  have r': "run_cmd brokenDiskHost QemuImg
      [''create'', ''-f'', ''qcow2'', filepath_Join [''/home/u'', DiskDir, ''vm1.qcow2''], ''32G'']
      (filesys emptyWorld) = (Some (ErrOther ''exit status 1''), emptyFs)"
    by (simp add: demoHost_def brokenDiskHost_def demoConfig_def emptyFs_def emptyWorld_def QemuImg_def)
  have p: "?disk = (case None :: error option of
      None \<Rightarrow> filepath_Join [''/home/u'', DiskDir, ''vm1.qcow2''] | Some er \<Rightarrow> [])"
    by (simp add: dp)
  have p': "[] = (case Some (ErrOther ''exit status 1'') of
      None \<Rightarrow> filepath_Join [''/home/u'', DiskDir, ''vm1.qcow2''] | Some er \<Rightarrow> [])"
    by simp
  have w: "fst (writeConfig demoHost ''vm1'' (templateConfig ''vm1'' ?disk) emptyFs) = Inr ?conf"
    by (simp add: writeConfig_def os_MkdirAll_def os_Create_def file_Write_def
        demoHost_def brokenDiskHost_def demoConfig_def emptyFs_def emptyWorld_def
        path_eval DiskDir_def)
  then have s: "writeConfig demoHost ''vm1'' (templateConfig ''vm1'' ?disk) emptyFs
      = (Inr ?conf, ?fs2)"
    by (simp add: prod_eq_iff)
  have "fst (writeConfig brokenDiskHost ''vm1'' (templateConfig ''vm1'' []) emptyFs) = Inr ?conf"
    by (simp add: writeConfig_def os_MkdirAll_def os_Create_def file_Write_def
        demoHost_def brokenDiskHost_def demoConfig_def emptyFs_def emptyWorld_def
        path_eval DiskDir_def)
  then have s': "writeConfig brokenDiskHost ''vm1'' (templateConfig ''vm1'' []) emptyFs
      = (Inr ?conf, ?fs2')"
    by (simp add: prod_eq_iff)
  have ed: "run_cmd demoHost (editorName demoHost) [?conf] ?fs2 = (None, ?fs2)"
    by (simp add: demoHost_def)
  have ed': "run_cmd brokenDiskHost (editorName brokenDiskHost) [?conf] ?fs2' = (None, ?fs2')"
    by (simp add: demoHost_def brokenDiskHost_def demoConfig_def emptyFs_def emptyWorld_def editorName_def)
  have n: "editorName demoHost = ''vi''" "editorName brokenDiskHost = ''vi''"
    by (simp_all add: demoHost_def brokenDiskHost_def demoConfig_def emptyFs_def emptyWorld_def editorName_def)
  have enc: "json_Encode demoHost (templateConfig ''vm1'' ?disk) = Inr ''config vm1''"
    by (simp add: demoHost_def brokenDiskHost_def demoConfig_def emptyFs_def emptyWorld_def templateConfig_def)
  note ok = create_vm1_scenario [OF u r p refl s ed, of "''qmgr''"]
  note broken = create_vm1_scenario [OF u' r' p' refl s' ed', of "''qmgr''"]
  have written: "files ?fs2 ?conf = Some ''config vm1''"
    using ok [THEN conjunct2, THEN conjunct1] by (simp add: enc)
  show ?thesis
    using u w written
      ok [THEN conjunct2, THEN conjunct2, THEN conjunct2, THEN conjunct2]
      broken [THEN conjunct2, THEN conjunct2, THEN conjunct2, THEN conjunct2]
    by (simp add: n dp QemuImg_def emptyWorld_def)
qed

text \<open>
  C8: the path that \<^verbatim>\<open>edit\<close> gives the editor begins with the element \<^verbatim>\<open>~\<close>, which no
  shell expands; writeConfig and readConfig use the home directory of the user.
\<close>

theorem edit_passes_tilde_path:
  "main demoHost [''qmgr'', ''edit'', ''vm1''] emptyWorld =
     (Exit 0, \<lparr>filesys = emptyFs, events = [Exec ''vi'' [''~/.config/qmgr/configs/vm1.json'']]\<rparr>)
   \<and> fst (writeConfig demoHost ''vm1'' demoConfig emptyFs)
       = Inr ''/home/u/.config/qmgr/configs/vm1.json''
   \<and> readConfig demoHost ''vm1'' emptyFs =
       Inl (Errorf ''opening config''
         (ErrNotExist ''open /home/u/.config/qmgr/configs/vm1.json: no such file or directory''))"
proof -
  have "main demoHost [''qmgr'', ''edit'', ''vm1''] emptyWorld =
     (Exit 0, \<lparr>filesys = emptyFs, events = [Exec ''vi'' [''~/.config/qmgr/configs/vm1.json'']]\<rparr>)"
    by (simp add: main_def cmdEdit_def editor_def editorName_def Run_def emit_def
        demoHost_def demoConfig_def emptyFs_def emptyWorld_def
        path_eval)
  moreover have "fst (writeConfig demoHost ''vm1'' demoConfig emptyFs)
       = Inr ''/home/u/.config/qmgr/configs/vm1.json''"
    by (simp add: writeConfig_def os_MkdirAll_def os_Create_def file_Write_def
        demoHost_def demoConfig_def emptyFs_def emptyWorld_def
        path_eval)
  moreover have "readConfig demoHost ''vm1'' emptyFs =
       Inl (Errorf ''opening config''
         (ErrNotExist ''open /home/u/.config/qmgr/configs/vm1.json: no such file or directory''))"
    by (simp add: readConfig_def os_Open_def demoHost_def demoConfig_def emptyFs_def emptyWorld_def
        path_eval)
  ultimately show ?thesis
    by simp
qed

text \<open>
  C9: with no command the usage text goes to the error stream, and \<^verbatim>\<open>run\<close>, \<^verbatim>\<open>create\<close>
  and \<^verbatim>\<open>edit\<close> without a name print an error there and exit with code 1; with a
  command that is none of the four, the program prints nothing at all.
\<close>

theorem main_command_errors:
  "(length Args < 2 \<longrightarrow>
      main e Args w = (Exit 0, w\<lparr>events := events w @ [Stderr (usage @ [CHR 0x0A])]\<rparr>))
   \<and> (length Args = 2 \<and> Args ! 1 \<in> {''run'', ''create'', ''edit''} \<longrightarrow>
      main e Args w =
        (Exit 1, w\<lparr>events := events w @ [Stderr (''no '' @ Args ! 1 @ '' name'' @ [CHR 0x0A])]\<rparr>))
   \<and> (2 \<le> length Args \<and> Args ! 1 \<notin> {''list'', ''run'', ''create'', ''edit''} \<longrightarrow>
      main e Args w = (Exit 0, w))"
  by (auto simp: main_def cmdRun_def cmdCreate_def cmdEdit_def Fprintln_Stderr_def emit_def)

theorem main_command_errors_witness:
  "main demoHost [''qmgr''] emptyWorld =
     (Exit 0, emptyWorld\<lparr>events := [Stderr (usage @ [CHR 0x0A])]\<rparr>)
   \<and> main demoHost [''qmgr'', ''run''] emptyWorld =
     (Exit 1, emptyWorld\<lparr>events := [Stderr (''no run name'' @ [CHR 0x0A])]\<rparr>)
   \<and> main demoHost [''qmgr'', ''frobnicate''] emptyWorld = (Exit 0, emptyWorld)"
  using main_command_errors [of "[''qmgr'']" demoHost emptyWorld]
    main_command_errors [of "[''qmgr'', ''run'']" demoHost emptyWorld]
    main_command_errors [of "[''qmgr'', ''frobnicate'']" demoHost emptyWorld]
  by (simp add: emptyWorld_def)


end
